theory Spec2Isabelle
  imports Complex_Main
begin

section \<open>Data model of geom.py\<close>

text \<open>
  The module computes with Python floats. Two readings of its arithmetic are given.
  In the first, numbers are mathematical reals and the arithmetic of \<^verbatim>\<open>geom.py\<close> is
  exact, so rounding, overflow and NaN are outside it. In the second (section
  "Arithmetic with rounding") every arithmetic operation is followed by a rounding
  function, which is a parameter; the first reading is the second at the identity
  rounding. The one special float the module names itself, \<^verbatim>\<open>math.inf\<close>, is kept as a
  separate constructor: the module only ever compares it and tests it with
  \<^verbatim>\<open>math.isinf\<close>, it does no arithmetic on it.
\<close>

datatype pyfloat = PosInf | Fin real

type_synonym point = "real \<times> real"

type_synonym line = "point \<times> point"

text \<open>
  The classes \<^verbatim>\<open>entity.Entity\<close> and \<^verbatim>\<open>wall.Wall\<close> are imported by geom.py and not defined in
  it. An entity is read through its attributes \<^verbatim>\<open>x\<close>, \<^verbatim>\<open>y\<close>, \<^verbatim>\<open>COLLISION_RADIUS\<close> and the result
  of its method \<^verbatim>\<open>center()\<close>, which is a field here, free to differ from the position.
\<close>

record entity =
  x :: real
  y :: real
  center :: point
  COLLISION_RADIUS :: real

record wall =
  vertices :: "point list"

text \<open>
  Modelled from the spec: \<^verbatim>\<open>wall.Wall.num_vertices\<close> is not part of geom.py; the specification
  calls it the vertex count of the wall's ordered sequence of vertices.
\<close>

definition num_vertices :: "wall \<Rightarrow> nat" where
  "num_vertices w = length (vertices w)"

text \<open>
  The values the dispatching functions receive: a tuple, an entity, a wall, or the
  \<^verbatim>\<open>False\<close> that \<^verbatim>\<open>point_of_intersection\<close> returns for parallel lines.
\<close>

datatype pyval = Tuple point | Entity entity | Wall wall | PyFalse

datatype error = TypeError | ZeroDivisionError | ValueError

section \<open>Simple math functions\<close>

definition max_geom :: "real \<Rightarrow> real \<Rightarrow> real" where
  "max_geom a b = (if a > b then a else b)"

definition min_geom :: "real \<Rightarrow> real \<Rightarrow> real" where
  "min_geom a b = (if a < b then a else b)"

definition sign :: "real \<Rightarrow> int" where
  "sign n = (if n = 0 then 0 else if n > 0 then 1 else -1)"

section \<open>Line math\<close>

definition slope :: "point \<Rightarrow> point \<Rightarrow> pyfloat" where
  "slope p1 p2 =
    (if fst p1 = fst p2 then PosInf else Fin ((snd p2 - snd p1) / (fst p2 - fst p1)))"

definition on_segment :: "point \<Rightarrow> line \<Rightarrow> bool" where
  "on_segment pt sg \<longleftrightarrow>
     slope pt (fst sg) = slope pt (snd sg) \<and>
     fst pt \<ge> min_geom (fst (fst sg)) (fst (snd sg)) \<and>
     fst pt \<le> max_geom (fst (fst sg)) (fst (snd sg)) \<and>
     snd pt \<ge> min_geom (snd (fst sg)) (snd (snd sg)) \<and>
     snd pt \<le> max_geom (snd (fst sg)) (snd (snd sg))"

text \<open>
  The constant term of a line: \<^verbatim>\<open>0 if (slope == math.inf) else (y - x*slope)\<close> at the
  line's first endpoint.
\<close>

fun line_const :: "pyfloat \<Rightarrow> line \<Rightarrow> real" where
  "line_const PosInf sg = 0"
| "line_const (Fin m) sg = snd (fst sg) - fst (fst sg) * m"

text \<open>
  \<^verbatim>\<open>point_of_intersection\<close> returns \<^verbatim>\<open>False\<close> for equal slopes, which is \<open>None\<close> here, and
  a tuple otherwise. When the first slope is infinite and the slopes differ, the
  second one is finite (and the other way round), so the products with a slope are
  products of reals.
\<close>

fun point_of_intersection :: "line \<Rightarrow> line \<Rightarrow> point option" where
  "point_of_intersection line1 line2 =
    (let slope1 = slope (fst line1) (snd line1);
         slope2 = slope (fst line2) (snd line2);
         const1 = line_const slope1 line1;
         const2 = line_const slope2 line2
     in if slope1 = slope2 then None
        else (case (slope1, slope2) of
           (PosInf, Fin m2) \<Rightarrow>
             (let intersectionX = fst (fst line1);
                  intersectionY = m2 * intersectionX + const2
              in Some (intersectionX, intersectionY))
         | (Fin m1, PosInf) \<Rightarrow>
             (let intersectionX = fst (fst line2);
                  intersectionY = m1 * intersectionX + const1
              in Some (intersectionX, intersectionY))
         | (Fin m1, Fin m2) \<Rightarrow>
             (let slopeTemp = m1 - m2;
                  constTemp = const2 - const1;
                  intersectionX = constTemp / slopeTemp;
                  intersectionY = m1 * intersectionX + const1
              in Some (intersectionX, intersectionY))
         | (PosInf, PosInf) \<Rightarrow> None))"

declare point_of_intersection.simps [simp del]

section \<open>Functions involving classes\<close>

text \<open>
  \<^verbatim>\<open>distance\<close> dispatches on the classes of its arguments and falls off its last
  \<^verbatim>\<open>elif\<close> for every other pair, returning Python's \<^verbatim>\<open>None\<close>: \<open>None\<close> here.
\<close>

function (sequential) distance :: "pyval \<Rightarrow> pyval \<Rightarrow> real option" where
  "distance (Tuple a) (Tuple b) = Some (sqrt ((fst a - fst b)\<^sup>2 + (snd a - snd b)\<^sup>2))"
| "distance (Tuple a) (Entity b) = Some (sqrt ((fst a - x b)\<^sup>2 + (snd a - y b)\<^sup>2))"
| "distance (Entity a) (Tuple b) = distance (Tuple b) (Entity a)"
| "distance (Entity a) (Entity b) = Some (sqrt ((x a - x b)\<^sup>2 + (y a - y b)\<^sup>2))"
| "distance _ _ = None"
  by pat_completeness auto

termination
  by (relation "measure (\<lambda>(a, b). case a of Entity _ \<Rightarrow> 1 | _ \<Rightarrow> 0)") auto

text \<open>
  \<^verbatim>\<open>math.degrees\<close>, and \<^verbatim>\<open>angle_to_point\<close>. The division raises when the point has the
  entity's x coordinate. Python reads the last operand as
  \<^verbatim>\<open>(180 if ... else 0) % 360\<close>, an integer, which is then added to the float.
\<close>

definition degrees :: "real \<Rightarrow> real" where
  "degrees r = r * (180 / pi)"

definition angle_to_point :: "entity \<Rightarrow> point \<Rightarrow> error + real" where
  "angle_to_point entity' pt =
    (if fst pt - x entity' = 0 then Inl ZeroDivisionError
     else Inr (- degrees (arctan ((snd pt - y entity') / (fst pt - x entity')))
               + of_int ((if fst pt - x entity' < 0 then 180 else 0) mod 360)))"

text \<open>
  The second point of the line that \<^verbatim>\<open>collision\<close> draws through the entity's
  center, for one side of the wall.
\<close>

definition temp_point :: "entity \<Rightarrow> line \<Rightarrow> point" where
  "temp_point entity' side =
    (case slope (fst side) (snd side) of
       PosInf \<Rightarrow> (x entity' + 1, y entity')
     | Fin m \<Rightarrow> if \<bar>m\<bar> = 0 then (x entity', y entity' + 1)
               else (x entity', y entity' + - 1 / m))"

text \<open>
  The value of \<^verbatim>\<open>point_of_intersection\<close> as \<^verbatim>\<open>distance\<close> receives it.
\<close>

fun intersection_val :: "point option \<Rightarrow> pyval" where
  "intersection_val None = PyFalse"
| "intersection_val (Some p) = Tuple p"

text \<open>
  The comparison \<^verbatim>\<open>distance(...) < radius\<close>: Python 3 raises a \<^verbatim>\<open>TypeError\<close> when the
  left operand is \<^verbatim>\<open>None\<close>.
\<close>

fun less_radius :: "real option \<Rightarrow> real \<Rightarrow> error + bool" where
  "less_radius None r = Inl TypeError"
| "less_radius (Some d) r = Inr (d < r)"

text \<open>
  \<^verbatim>\<open>on_segment\<close> as the loop calls it, on the value of \<^verbatim>\<open>point_of_intersection\<close>:
  subscripting \<^verbatim>\<open>False\<close> raises a \<^verbatim>\<open>TypeError\<close>.
\<close>

fun on_segment_val :: "pyval \<Rightarrow> line \<Rightarrow> error + bool" where
  "on_segment_val (Tuple p) side = Inr (on_segment p side)"
| "on_segment_val _ side = Inl TypeError"

text \<open>
  Side \<open>i\<close> of the wall, and the condition of the \<^verbatim>\<open>if\<close> in the loop body for it,
  with Python's evaluation order of \<^verbatim>\<open>and\<close> and \<^verbatim>\<open>or\<close>.
\<close>

definition side_of :: "wall \<Rightarrow> nat \<Rightarrow> line" where
  "side_of wall' i = (vertices wall' ! i, vertices wall' ! ((i + 1) mod num_vertices wall'))"

definition side_test :: "entity \<Rightarrow> wall \<Rightarrow> nat \<Rightarrow> error + bool" where
  "side_test entity' wall' i =
    (let side = side_of wall' i;
         tp = temp_point entity' side;
         intersection = intersection_val (point_of_intersection side (center entity', tp))
     in case less_radius (distance (Tuple (center entity')) intersection)
               (COLLISION_RADIUS entity') of
          Inl err \<Rightarrow> Inl err
        | Inr near \<Rightarrow>
            (case (if near then on_segment_val intersection side else Inr False) of
               Inl err \<Rightarrow> Inl err
             | Inr True \<Rightarrow> Inr True
             | Inr False \<Rightarrow>
                 less_radius (distance (Tuple (center entity')) (Tuple (vertices wall' ! i)))
                   (COLLISION_RADIUS entity')))"

text \<open>
  The \<^verbatim>\<open>for\<close> loop over \<^verbatim>\<open>range(0, num_vertices)\<close>, which returns at the first side whose
  test holds and \<^verbatim>\<open>False\<close> after the last.
\<close>

fun collision_loop :: "entity \<Rightarrow> wall \<Rightarrow> nat list \<Rightarrow> error + bool" where
  "collision_loop entity' wall' [] = Inr False"
| "collision_loop entity' wall' (i # rest) =
    (case side_test entity' wall' i of
       Inl err \<Rightarrow> Inl err
     | Inr True \<Rightarrow> Inr True
     | Inr False \<Rightarrow> collision_loop entity' wall' rest)"

text \<open>
  \<^verbatim>\<open>collision\<close> returns a boolean, or Python's \<^verbatim>\<open>None\<close> when no branch of its dispatch
  applies.
\<close>

function (sequential) collision :: "pyval \<Rightarrow> pyval \<Rightarrow> error + bool option" where
  "collision (Entity a) (Entity b) =
     map_sum id Some
       (less_radius (distance (Tuple (center a)) (Tuple (center b)))
          (COLLISION_RADIUS a + COLLISION_RADIUS b))"
| "collision (Entity a) (Wall b) =
     map_sum id Some (collision_loop a b [0 ..< num_vertices b])"
| "collision (Wall a) (Entity b) = collision (Entity b) (Wall a)"
| "collision _ _ = Inr None"
  by pat_completeness auto

termination
  by (relation "measure (\<lambda>(a, b). case a of Wall _ \<Rightarrow> 1 | _ \<Rightarrow> 0)") auto

section \<open>Notions of the specification\<close>

text \<open>
  A point satisfies the equation of the infinite line through the two endpoints of a
  segment: the cross product of the two difference vectors vanishes.
\<close>

definition on_line :: "point \<Rightarrow> line \<Rightarrow> bool" where
  "on_line p sg \<longleftrightarrow>
     (fst (snd sg) - fst (fst sg)) * (snd p - snd (fst sg)) =
     (snd (snd sg) - snd (fst sg)) * (fst p - fst (fst sg))"

text \<open>
  The second point of the line through the entity's center, in the words of the
  specification: for a horizontal side one unit above the entity, for a vertical side
  one unit to its right, otherwise the entity's position lowered by the reciprocal of
  the side's slope. A side whose two endpoints have the same x coordinate counts as
  vertical.
\<close>

definition horizontal :: "line \<Rightarrow> bool" where
  "horizontal sg \<longleftrightarrow> snd (fst sg) = snd (snd sg) \<and> fst (fst sg) \<noteq> fst (snd sg)"

definition vertical :: "line \<Rightarrow> bool" where
  "vertical sg \<longleftrightarrow> fst (fst sg) = fst (snd sg)"

definition side_slope :: "line \<Rightarrow> real" where
  "side_slope sg = (snd (snd sg) - snd (fst sg)) / (fst (snd sg) - fst (fst sg))"

definition second_point :: "entity \<Rightarrow> line \<Rightarrow> point" where
  "second_point e sg =
    (if horizontal sg then (x e, y e + 1)
     else if vertical sg then (x e + 1, y e)
     else (x e, y e - 1 / side_slope sg))"

text \<open>
  The condition of the specification for one side: the intersection is within the
  collision radius of the center and on the segment, or the side's starting vertex is
  within the collision radius of the center.
\<close>

definition euclid :: "point \<Rightarrow> point \<Rightarrow> real" where
  "euclid p q = sqrt ((fst p - fst q)\<^sup>2 + (snd p - snd q)\<^sup>2)"

definition side_collides :: "entity \<Rightarrow> wall \<Rightarrow> nat \<Rightarrow> bool" where
  "side_collides e w i \<longleftrightarrow>
     (\<exists>p. point_of_intersection (side_of w i) (center e, second_point e (side_of w i)) = Some p
          \<and> euclid (center e) p < COLLISION_RADIUS e \<and> on_segment p (side_of w i))
     \<or> euclid (center e) (vertices w ! i) < COLLISION_RADIUS e"

section \<open>Arithmetic with rounding\<close>

text \<open>
  The functions on the path of the entity-wall collision once more, with the rounding
  of floating-point arithmetic made explicit: each of Python's \<^verbatim>\<open>+\<close>, \<^verbatim>\<open>-\<close>, \<^verbatim>\<open>*\<close>, \<^verbatim>\<open>/\<close>,
  \<^verbatim>\<open>**2\<close> and \<^verbatim>\<open>math.sqrt\<close> yields the rounding of the exact result. The comparisons
  \<^verbatim>\<open>==\<close>, \<^verbatim>\<open><\<close>, \<^verbatim>\<open>>=\<close>, \<^verbatim>\<open><=\<close>, \<^verbatim>\<open>abs\<close> and the unary minus are exact on floats. A division
  by a zero divisor raises \<^verbatim>\<open>ZeroDivisionError\<close>, \<^verbatim>\<open>math.sqrt\<close> of a negative number raises
  \<^verbatim>\<open>ValueError\<close>. Overflow to an infinity and NaN are not represented.
\<close>

type_synonym rounding = "real \<Rightarrow> real"

definition bind_err :: "error + 'a \<Rightarrow> ('a \<Rightarrow> error + 'b) \<Rightarrow> error + 'b" where
  "bind_err m f = (case m of Inl err \<Rightarrow> Inl err | Inr v \<Rightarrow> f v)"

definition fdiv :: "rounding \<Rightarrow> real \<Rightarrow> real \<Rightarrow> error + real" where
  "fdiv rnd a b = (if b = 0 then Inl ZeroDivisionError else Inr (rnd (a / b)))"

definition fsqrt :: "rounding \<Rightarrow> real \<Rightarrow> error + real" where
  "fsqrt rnd a = (if a < 0 then Inl ValueError else Inr (rnd (sqrt a)))"

text \<open>
  \<^verbatim>\<open>slope\<close>, \<^verbatim>\<open>on_segment\<close> and \<^verbatim>\<open>point_of_intersection\<close> with rounding. In \<^verbatim>\<open>on_segment\<close>
  both slopes are computed before the comparison, so the equality test is one of two
  rounded quotients.
\<close>

definition slope_fl :: "rounding \<Rightarrow> point \<Rightarrow> point \<Rightarrow> error + pyfloat" where
  "slope_fl rnd p1 p2 =
    (if fst p1 = fst p2 then Inr PosInf
     else bind_err (fdiv rnd (rnd (snd p2 - snd p1)) (rnd (fst p2 - fst p1)))
            (\<lambda>m. Inr (Fin m)))"

definition on_segment_fl :: "rounding \<Rightarrow> point \<Rightarrow> line \<Rightarrow> error + bool" where
  "on_segment_fl rnd pt sg =
     bind_err (slope_fl rnd pt (fst sg)) (\<lambda>s0.
     bind_err (slope_fl rnd pt (snd sg)) (\<lambda>s1.
       Inr (s0 = s1 \<and>
            fst pt \<ge> min_geom (fst (fst sg)) (fst (snd sg)) \<and>
            fst pt \<le> max_geom (fst (fst sg)) (fst (snd sg)) \<and>
            snd pt \<ge> min_geom (snd (fst sg)) (snd (snd sg)) \<and>
            snd pt \<le> max_geom (snd (fst sg)) (snd (snd sg)))))"

fun line_const_fl :: "rounding \<Rightarrow> pyfloat \<Rightarrow> line \<Rightarrow> real" where
  "line_const_fl rnd PosInf sg = 0"
| "line_const_fl rnd (Fin m) sg = rnd (snd (fst sg) - rnd (fst (fst sg) * m))"

definition point_of_intersection_fl :: "rounding \<Rightarrow> line \<Rightarrow> line \<Rightarrow> error + point option" where
  "point_of_intersection_fl rnd line1 line2 =
     bind_err (slope_fl rnd (fst line1) (snd line1)) (\<lambda>slope1.
     bind_err (slope_fl rnd (fst line2) (snd line2)) (\<lambda>slope2.
       let const1 = line_const_fl rnd slope1 line1;
           const2 = line_const_fl rnd slope2 line2
       in if slope1 = slope2 then Inr None
          else (case (slope1, slope2) of
             (PosInf, Fin m2) \<Rightarrow>
               (let intersectionX = fst (fst line1);
                    intersectionY = rnd (rnd (m2 * intersectionX) + const2)
                in Inr (Some (intersectionX, intersectionY)))
           | (Fin m1, PosInf) \<Rightarrow>
               (let intersectionX = fst (fst line2);
                    intersectionY = rnd (rnd (m1 * intersectionX) + const1)
                in Inr (Some (intersectionX, intersectionY)))
           | (Fin m1, Fin m2) \<Rightarrow>
               (let slopeTemp = rnd (m1 - m2);
                    constTemp = rnd (const2 - const1)
                in bind_err (fdiv rnd constTemp slopeTemp) (\<lambda>intersectionX.
                     Inr (Some (intersectionX, rnd (rnd (m1 * intersectionX) + const1)))))
           | (PosInf, PosInf) \<Rightarrow> Inr None)))"

text \<open>
  \<^verbatim>\<open>math.sqrt((ax-bx)**2 + (ay-by)**2)\<close>, and \<^verbatim>\<open>distance\<close> with its dispatch.
\<close>

definition pythagoras_fl :: "rounding \<Rightarrow> real \<Rightarrow> real \<Rightarrow> real \<Rightarrow> real \<Rightarrow> error + real" where
  "pythagoras_fl rnd ax ay bx by =
     fsqrt rnd (rnd (rnd ((rnd (ax - bx))\<^sup>2) + rnd ((rnd (ay - by))\<^sup>2)))"

function (sequential) distance_fl :: "rounding \<Rightarrow> pyval \<Rightarrow> pyval \<Rightarrow> error + real option" where
  "distance_fl rnd (Tuple a) (Tuple b) =
     map_sum id Some (pythagoras_fl rnd (fst a) (snd a) (fst b) (snd b))"
| "distance_fl rnd (Tuple a) (Entity b) =
     map_sum id Some (pythagoras_fl rnd (fst a) (snd a) (x b) (y b))"
| "distance_fl rnd (Entity a) (Tuple b) = distance_fl rnd (Tuple b) (Entity a)"
| "distance_fl rnd (Entity a) (Entity b) =
     map_sum id Some (pythagoras_fl rnd (x a) (y a) (x b) (y b))"
| "distance_fl rnd _ _ = Inr None"
  by pat_completeness auto

termination
  by (relation "measure (\<lambda>(rnd, a, b). case a of Entity _ \<Rightarrow> 1 | _ \<Rightarrow> 0)") auto

declare distance_fl.simps [simp del]

text \<open>
  The second point of the line through the entity's center: for a side of slope zero
  \<^verbatim>\<open>(x, y + 1)\<close>, for a side of infinite slope \<^verbatim>\<open>(x + 1, y)\<close>, otherwise
  \<^verbatim>\<open>(x, y + -1/slope)\<close>; then the loop body, the loop and \<^verbatim>\<open>collision\<close>.
\<close>

definition temp_point_fl :: "rounding \<Rightarrow> entity \<Rightarrow> line \<Rightarrow> error + point" where
  "temp_point_fl rnd entity' side =
     bind_err (slope_fl rnd (fst side) (snd side)) (\<lambda>s.
       case s of
         PosInf \<Rightarrow> Inr (rnd (x entity' + 1), y entity')
       | Fin m \<Rightarrow>
           if \<bar>m\<bar> = 0 then Inr (x entity', rnd (y entity' + 1))
           else bind_err (fdiv rnd (- 1) m) (\<lambda>q. Inr (x entity', rnd (y entity' + q))))"

fun on_segment_val_fl :: "rounding \<Rightarrow> pyval \<Rightarrow> line \<Rightarrow> error + bool" where
  "on_segment_val_fl rnd (Tuple p) side = on_segment_fl rnd p side"
| "on_segment_val_fl rnd _ side = Inl TypeError"

definition near_fl :: "rounding \<Rightarrow> point \<Rightarrow> pyval \<Rightarrow> real \<Rightarrow> error + bool" where
  "near_fl rnd c v r = bind_err (distance_fl rnd (Tuple c) v) (\<lambda>d. less_radius d r)"

definition side_test_fl :: "rounding \<Rightarrow> entity \<Rightarrow> wall \<Rightarrow> nat \<Rightarrow> error + bool" where
  "side_test_fl rnd entity' wall' i =
    (let side = side_of wall' i
     in bind_err (temp_point_fl rnd entity' side) (\<lambda>tp.
        bind_err (point_of_intersection_fl rnd side (center entity', tp)) (\<lambda>res.
          let intersection = intersection_val res
          in bind_err (near_fl rnd (center entity') intersection (COLLISION_RADIUS entity'))
               (\<lambda>near.
             bind_err (if near then on_segment_val_fl rnd intersection side else Inr False)
               (\<lambda>hit.
               if hit then Inr True
               else near_fl rnd (center entity') (Tuple (vertices wall' ! i))
                      (COLLISION_RADIUS entity'))))))"

fun collision_loop_fl :: "rounding \<Rightarrow> entity \<Rightarrow> wall \<Rightarrow> nat list \<Rightarrow> error + bool" where
  "collision_loop_fl rnd entity' wall' [] = Inr False"
| "collision_loop_fl rnd entity' wall' (i # rest) =
     bind_err (side_test_fl rnd entity' wall' i) (\<lambda>hit.
       if hit then Inr True else collision_loop_fl rnd entity' wall' rest)"

function (sequential) collision_fl :: "rounding \<Rightarrow> pyval \<Rightarrow> pyval \<Rightarrow> error + bool option" where
  "collision_fl rnd (Entity a) (Entity b) =
     map_sum id Some
       (near_fl rnd (center a) (Tuple (center b)) (rnd (COLLISION_RADIUS a + COLLISION_RADIUS b)))"
| "collision_fl rnd (Entity a) (Wall b) =
     map_sum id Some (collision_loop_fl rnd a b [0 ..< num_vertices b])"
| "collision_fl rnd (Wall a) (Entity b) = collision_fl rnd (Entity b) (Wall a)"
| "collision_fl rnd _ _ = Inr None"
  by pat_completeness auto

termination
  by (relation "measure (\<lambda>(rnd, a, b). case a of Wall _ \<Rightarrow> 1 | _ \<Rightarrow> 0)") auto

text \<open>
  A number is a float when rounding leaves it unchanged. The properties of rounding to
  the nearest float that are used: a rounded number is a float, the rounding of a
  number that is not negative is not negative, and the difference of two distinct
  floats does not round to zero.
\<close>

definition representable :: "rounding \<Rightarrow> real \<Rightarrow> bool" where
  "representable rnd v \<longleftrightarrow> rnd v = v"


definition float_rounding :: "rounding \<Rightarrow> bool" where
  "float_rounding rnd \<longleftrightarrow>
     (\<forall>r. representable rnd (rnd r)) \<and>
     (\<forall>r. 0 \<le> r \<longrightarrow> 0 \<le> rnd r) \<and>
     (\<forall>a b. representable rnd a \<and> representable rnd b \<and> a \<noteq> b \<longrightarrow> rnd (a - b) \<noteq> 0)"


text \<open>
  A rounding that is easy to compute with, to the nearest multiple of one eighth: a
  fixed-point format, used to show on a small input that results depend on the
  rounding.
\<close>

definition round_eighths :: rounding where
  "round_eighths r = of_int \<lfloor>r * 8 + 1 / 2\<rfloor> / 8"

section \<open>Slopes and intersections\<close>

text \<open>
  C9: for every pair of points, \<^verbatim>\<open>slope\<close> is the infinite sentinel when the two x
  coordinates are equal, and the quotient of the y difference by the x difference
  otherwise.
\<close>

theorem slope_cases:
  "(fst p1 = fst p2 \<longrightarrow> slope p1 p2 = PosInf) \<and>
   (fst p1 \<noteq> fst p2 \<longrightarrow> slope p1 p2 = Fin ((snd p2 - snd p1) / (fst p2 - fst p1)))"
  by (simp add: slope_def)

theorem slope_cases_witness:
  "fst ((1::real), (2::real)) = fst ((1::real), (5::real)) \<and> slope (1, 2) (1, 5) = PosInf \<and>
   fst ((1::real), (2::real)) \<noteq> fst ((3::real), (6::real)) \<and> slope (1, 2) (3, 6) = Fin 2"
  using slope_cases [of "(1, 2)" "(1, 5)"] slope_cases [of "(1, 2)" "(3, 6)"] by simp

text \<open>
  C6: when the two computed slopes are equal, both infinite included,
  \<^verbatim>\<open>point_of_intersection\<close> returns its "no intersection" result, which is no point.
\<close>

theorem parallel_no_intersection:
  "slope (fst line1) (snd line1) = slope (fst line2) (snd line2) \<Longrightarrow>
   point_of_intersection line1 line2 = None \<and> (\<forall>p. point_of_intersection line1 line2 \<noteq> Some p)"
  by (simp add: point_of_intersection.simps)

theorem parallel_no_intersection_witness:
  "slope (fst ((0, 0), (0, 1))) (snd ((0, 0), (0, 1))) = slope (fst ((3, 0), (3, 7))) (snd ((3, 0), (3, 7)))
   \<and> point_of_intersection ((0, 0), (0, 1)) ((3, 0), (3, 7)) = None
   \<and> slope (fst ((0, 0), (1, 1))) (snd ((0, 0), (1, 1))) = slope (fst ((0, 1), (2, 3))) (snd ((0, 1), (2, 3)))
   \<and> point_of_intersection ((0, 0), (1, 1)) ((0, 1), (2, 3)) = None"
  using parallel_no_intersection [of "((0, 0), (0, 1))" "((3, 0), (3, 7))"]
    parallel_no_intersection [of "((0, 0), (1, 1))" "((0, 1), (2, 3))"]
  by (simp add: slope_def)

text \<open>
  The point that \<^verbatim>\<open>point_of_intersection\<close> returns, by the kinds of the two slopes, and
  the equation of a line in terms of its slope.
\<close>

lemma poi_Inf_Fin:
  "slope (fst line1) (snd line1) = PosInf \<Longrightarrow> slope (fst line2) (snd line2) = Fin m2 \<Longrightarrow>
   point_of_intersection line1 line2 =
     Some (fst (fst line1), m2 * fst (fst line1) + (snd (fst line2) - fst (fst line2) * m2))"
  by (simp add: point_of_intersection.simps Let_def)

lemma poi_Fin_Inf:
  "slope (fst line1) (snd line1) = Fin m1 \<Longrightarrow> slope (fst line2) (snd line2) = PosInf \<Longrightarrow>
   point_of_intersection line1 line2 =
     Some (fst (fst line2), m1 * fst (fst line2) + (snd (fst line1) - fst (fst line1) * m1))"
  by (simp add: point_of_intersection.simps Let_def)

lemma poi_Fin_Fin:
  "slope (fst line1) (snd line1) = Fin m1 \<Longrightarrow> slope (fst line2) (snd line2) = Fin m2 \<Longrightarrow>
   m1 \<noteq> m2 \<Longrightarrow>
   point_of_intersection line1 line2 =
     Some (((snd (fst line2) - fst (fst line2) * m2) - (snd (fst line1) - fst (fst line1) * m1))
             / (m1 - m2),
           m1 * (((snd (fst line2) - fst (fst line2) * m2)
                    - (snd (fst line1) - fst (fst line1) * m1)) / (m1 - m2))
             + (snd (fst line1) - fst (fst line1) * m1))"
  by (simp add: point_of_intersection.simps Let_def)

lemma slope_Fin_on_line:
  assumes "slope (fst sg) (snd sg) = Fin m"
  shows "on_line p sg \<longleftrightarrow> snd p - snd (fst sg) = m * (fst p - fst (fst sg))"
proof -
  have ne: "fst (fst sg) \<noteq> fst (snd sg)" and m: "m = (snd (snd sg) - snd (fst sg)) / (fst (snd sg) - fst (fst sg))"
    using assms by (auto simp add: slope_def split: if_splits)
  have dy: "snd (snd sg) - snd (fst sg) = m * (fst (snd sg) - fst (fst sg))"
    using ne by (simp add: m)
  have "on_line p sg \<longleftrightarrow>
    (fst (snd sg) - fst (fst sg)) * (snd p - snd (fst sg)) =
    (fst (snd sg) - fst (fst sg)) * (m * (fst p - fst (fst sg)))"
    unfolding on_line_def dy by (simp add: mult.assoc mult.left_commute)
  also have "\<dots> \<longleftrightarrow> snd p - snd (fst sg) = m * (fst p - fst (fst sg))"
    using ne by simp
  finally show ?thesis .
qed

lemma slope_Inf_on_line:
  assumes "slope (fst sg) (snd sg) = PosInf" and "fst p = fst (fst sg)"
  shows "on_line p sg"
  using assms by (simp add: on_line_def slope_def split: if_splits)

text \<open>
  C5: for two segments with distinct endpoints each and unequal slopes,
  \<^verbatim>\<open>point_of_intersection\<close> returns a point that satisfies the equations of both infinite
  lines; with two finite slopes its coordinates are
  \<open>x = (const2 - const1) / (slope1 - slope2)\<close> and \<open>y = slope1 * x + const1\<close>, and with an
  infinite slope its x coordinate is that of the vertical line.
\<close>

theorem intersection_on_lines:
  assumes "fst line1 \<noteq> snd line1" and "fst line2 \<noteq> snd line2"
    and "slope (fst line1) (snd line1) \<noteq> slope (fst line2) (snd line2)"
  shows "\<exists>p. point_of_intersection line1 line2 = Some p \<and> on_line p line1 \<and> on_line p line2 \<and>
     (\<forall>m1 m2. slope (fst line1) (snd line1) = Fin m1 \<and> slope (fst line2) (snd line2) = Fin m2 \<longrightarrow>
        fst p = (line_const (Fin m2) line2 - line_const (Fin m1) line1) / (m1 - m2) \<and>
        snd p = m1 * fst p + line_const (Fin m1) line1) \<and>
     (slope (fst line1) (snd line1) = PosInf \<longrightarrow> fst p = fst (fst line1)) \<and>
     (slope (fst line2) (snd line2) = PosInf \<longrightarrow> fst p = fst (fst line2))"
proof (cases "slope (fst line1) (snd line1)")
  case s1: PosInf
  then obtain m2 where s2: "slope (fst line2) (snd line2) = Fin m2"
    using assms(3) by (cases "slope (fst line2) (snd line2)") auto
  show ?thesis
    unfolding poi_Inf_Fin [OF s1 s2] s1 s2
    by (simp add: slope_Inf_on_line [OF s1] slope_Fin_on_line [OF s2] algebra_simps)
next
  case s1: (Fin m1)
  show ?thesis
  proof (cases "slope (fst line2) (snd line2)")
    case s2: PosInf
    show ?thesis
      unfolding poi_Fin_Inf [OF s1 s2] s1 s2
      by (simp add: slope_Inf_on_line [OF s2] slope_Fin_on_line [OF s1] algebra_simps)
  next
    case s2: (Fin m2)
    have ne: "m1 \<noteq> m2" using assms(3) s1 s2 by simp
    define px where "px = ((snd (fst line2) - fst (fst line2) * m2)
      - (snd (fst line1) - fst (fst line1) * m1)) / (m1 - m2)"
    have pxm: "px * (m1 - m2) = (snd (fst line2) - fst (fst line2) * m2)
      - (snd (fst line1) - fst (fst line1) * m1)"
      using ne by (simp add: px_def)
    have o2: "m1 * px + (snd (fst line1) - fst (fst line1) * m1) - snd (fst line2)
      = m2 * (px - fst (fst line2))"
      using pxm by (simp add: algebra_simps)
    show ?thesis
      unfolding poi_Fin_Fin [OF s1 s2 ne] s1 s2 px_def [symmetric]
      using o2 by (simp add: slope_Fin_on_line [OF s1] slope_Fin_on_line [OF s2] px_def algebra_simps)
  qed
qed

theorem intersection_on_lines_witness:
  "fst ((0::real, 0::real), (2::real, 2::real)) \<noteq> snd ((0, 0), (2, 2)) \<and>
   fst ((0::real, 4::real), (4::real, 0::real)) \<noteq> snd ((0, 4), (4, 0)) \<and>
   slope (fst ((0, 0), (2, 2))) (snd ((0, 0), (2, 2))) \<noteq> slope (fst ((0, 4), (4, 0))) (snd ((0, 4), (4, 0))) \<and>
   (\<exists>p. point_of_intersection ((0, 0), (2, 2)) ((0, 4), (4, 0)) = Some p \<and>
        on_line p ((0, 0), (2, 2)) \<and> on_line p ((0, 4), (4, 0)))"
proof -
  have h1: "fst ((0::real, 0::real), (2::real, 2::real)) \<noteq> snd ((0, 0), (2, 2))" by simp
  have h2: "fst ((0::real, 4::real), (4::real, 0::real)) \<noteq> snd ((0, 4), (4, 0))" by simp
  have h3: "slope (fst ((0, 0), (2, 2))) (snd ((0, 0), (2, 2)))
              \<noteq> slope (fst ((0, 4), (4, 0))) (snd ((0, 4), (4, 0)))"
    by (simp add: slope_def)
  from intersection_on_lines [OF h1 h2 h3]
  have "\<exists>p. point_of_intersection ((0, 0), (2, 2)) ((0, 4), (4, 0)) = Some p \<and>
        on_line p ((0, 0), (2, 2)) \<and> on_line p ((0, 4), (4, 0))"
    by blast
  then show ?thesis using h1 h2 h3 by blast
qed

section \<open>Points on segments\<close>

text \<open>
  C3: the endpoints of a segment are expected to be on the segment. The slope from a
  point to itself is the infinite sentinel, so for a segment that is not vertical the
  two slopes that \<^verbatim>\<open>on_segment\<close> compares differ at either endpoint, and the function
  returns false there.
\<close>

theorem on_segment_endpoints_rejected:
  "\<not> on_segment (0, 0) ((0, 0), (1, 1)) \<and> \<not> on_segment (1, 1) ((0, 0), (1, 1))"
  by (simp add: on_segment_def slope_def)

text \<open>
  An endpoint of a segment with two distinct endpoints passes \<^verbatim>\<open>on_segment\<close> exactly when
  the segment is vertical.
\<close>

lemma on_segment_endpoints_iff:
  "fst sg \<noteq> snd sg \<Longrightarrow>
   (on_segment (fst sg) sg \<longleftrightarrow> fst (fst sg) = fst (snd sg)) \<and>
   (on_segment (snd sg) sg \<longleftrightarrow> fst (fst sg) = fst (snd sg))"
  by (auto simp add: on_segment_def slope_def min_geom_def max_geom_def)

section \<open>Distance and collision dispatch\<close>

text \<open>
  C8: the distance of two points is symmetric and zero from a point to itself; the four
  variants of the dispatch (point-point, point-entity, entity-point, entity-entity)
  give the same Euclidean value on arguments with the same coordinates, and
  entity-point is point-entity with the arguments swapped.
\<close>

theorem distance_variants:
  "distance (Tuple p) (Tuple q) = distance (Tuple q) (Tuple p) \<and>
   distance (Tuple p) (Tuple p) = Some 0 \<and>
   distance (Tuple p) (Tuple q) = Some (euclid p q) \<and>
   distance (Entity a) (Tuple q) = distance (Tuple q) (Entity a) \<and>
   ((x a, y a) = p \<and> (x b, y b) = q \<longrightarrow>
      distance (Tuple p) (Entity b) = Some (euclid p q) \<and>
      distance (Entity a) (Tuple q) = Some (euclid p q) \<and>
      distance (Entity a) (Entity b) = Some (euclid p q))"
  by (auto simp add: euclid_def power2_commute)

theorem distance_variants_witness:
  "(x \<lparr>x = 1, y = 2, center = (1, 2), COLLISION_RADIUS = 1\<rparr>,
    y \<lparr>x = 1, y = 2, center = (1, 2), COLLISION_RADIUS = 1\<rparr>) = (1, 2) \<and>
   (x \<lparr>x = 4, y = 6, center = (4, 6), COLLISION_RADIUS = 1\<rparr>,
    y \<lparr>x = 4, y = 6, center = (4, 6), COLLISION_RADIUS = 1\<rparr>) = (4, 6) \<and>
   distance (Tuple (1, 2)) (Entity \<lparr>x = 4, y = 6, center = (4, 6), COLLISION_RADIUS = 1\<rparr>) = Some 5 \<and>
   distance (Entity \<lparr>x = 1, y = 2, center = (1, 2), COLLISION_RADIUS = 1\<rparr>) (Tuple (4, 6)) = Some 5 \<and>
   distance (Entity \<lparr>x = 1, y = 2, center = (1, 2), COLLISION_RADIUS = 1\<rparr>)
     (Entity \<lparr>x = 4, y = 6, center = (4, 6), COLLISION_RADIUS = 1\<rparr>) = Some 5 \<and>
   distance (Tuple (1, 2)) (Tuple (4, 6)) = Some 5"
proof -
  have e: "euclid (1, 2) (4, 6) = 5"
  proof -
    have "euclid (1, 2) (4, 6) = sqrt (5\<^sup>2)" by (simp add: euclid_def)
    also have "\<dots> = 5" by simp
    finally show ?thesis .
  qed
  show ?thesis
    using distance_variants [of "(1, 2)" "(4, 6)"
        "\<lparr>x = 1, y = 2, center = (1, 2), COLLISION_RADIUS = 1\<rparr>"
        "\<lparr>x = 4, y = 6, center = (4, 6), COLLISION_RADIUS = 1\<rparr>"]
    unfolding e by simp
qed

text \<open>
  C7: wall-entity collision is entity-wall collision with the arguments swapped, and
  entity-entity collision is symmetric.
\<close>

theorem collision_symmetric:
  "collision (Wall w) (Entity e) = collision (Entity e) (Wall w) \<and>
   collision (Entity a) (Entity b) = collision (Entity b) (Entity a)"
  by (simp add: power2_commute add.commute)

text \<open>
  C2: two entities collide exactly when the Euclidean distance of their centers is
  strictly less than the sum of their collision radii; centers \<open>(0,0)\<close> and \<open>(8,0)\<close> with
  radii 5 and 4 collide, centers \<open>(0,0)\<close> and \<open>(10,0)\<close> with radii 1 and 1 do not.
\<close>

theorem entity_collision:
  "collision (Entity a) (Entity b) =
     Inr (Some (euclid (center a) (center b) < COLLISION_RADIUS a + COLLISION_RADIUS b)) \<and>
   collision (Entity \<lparr>x = 0, y = 0, center = (0, 0), COLLISION_RADIUS = 5\<rparr>)
     (Entity \<lparr>x = 8, y = 0, center = (8, 0), COLLISION_RADIUS = 4\<rparr>) = Inr (Some True) \<and>
   collision (Entity \<lparr>x = 0, y = 0, center = (0, 0), COLLISION_RADIUS = 1\<rparr>)
     (Entity \<lparr>x = 10, y = 0, center = (10, 0), COLLISION_RADIUS = 1\<rparr>) = Inr (Some False)"
proof -
  have "sqrt (8\<^sup>2) < 9" by simp
  moreover have "\<not> sqrt (10\<^sup>2) < 2" by simp
  ultimately show ?thesis by (simp add: euclid_def)
qed

section \<open>The angle to a point\<close>

text \<open>
  C4: when the point's x coordinate differs from the entity's, \<^verbatim>\<open>angle_to_point\<close> is the
  negated arctangent of the quotient of the differences, in degrees, plus 180 when the
  x difference is negative; the remainder modulo 360 applies to that last term only, so
  the result is not brought into the range from 0 to 360: there is an input with the
  point to the right of the entity and a negative result.
\<close>

theorem angle_to_point_formula:
  "(\<forall>e p. fst p \<noteq> x e \<longrightarrow>
      angle_to_point e p =
        Inr (- degrees (arctan ((snd p - y e) / (fst p - x e)))
             + (if fst p - x e < 0 then 180 else 0))) \<and>
   (\<exists>e p v. fst p > x e \<and> angle_to_point e p = Inr v \<and> v < 0)"
proof
  show "\<forall>e p. fst p \<noteq> x e \<longrightarrow>
      angle_to_point e p =
        Inr (- degrees (arctan ((snd p - y e) / (fst p - x e)))
             + (if fst p - x e < 0 then 180 else 0))"
    by (simp add: angle_to_point_def)
next
  have "angle_to_point \<lparr>x = 0, y = 0, center = (0, 0), COLLISION_RADIUS = 1\<rparr> (1, 1) = Inr (- 45)"
    by (simp add: angle_to_point_def degrees_def arctan_one)
  then show "\<exists>e p v. fst p > x e \<and> angle_to_point e p = Inr v \<and> v < 0"
    by (intro exI [of _ "\<lparr>x = 0, y = 0, center = (0, 0), COLLISION_RADIUS = 1\<rparr>"]
        exI [of _ "(1, 1)"] exI [of _ "- 45"]) simp
qed

theorem angle_to_point_formula_witness:
  "fst ((1::real), (1::real)) \<noteq> x \<lparr>x = 0, y = 0, center = (0, 0), COLLISION_RADIUS = 1\<rparr> \<and>
   angle_to_point \<lparr>x = 0, y = 0, center = (0, 0), COLLISION_RADIUS = 1\<rparr> (1, 1) = Inr (- 45) \<and>
   fst ((- 1::real), (1::real)) \<noteq> x \<lparr>x = 0, y = 0, center = (0, 0), COLLISION_RADIUS = 1\<rparr> \<and>
   angle_to_point \<lparr>x = 0, y = 0, center = (0, 0), COLLISION_RADIUS = 1\<rparr> (- 1, 1) = Inr 225"
  using angle_to_point_formula
  by (simp add: degrees_def arctan_one arctan_minus)

section \<open>Collision of an entity with a wall\<close>

text \<open>
  The second point computed by the loop is the one the specification prescribes. When
  the entity's center is its position, the line through the center and that point
  never has the slope of the side, so the intersection is a point, no comparison
  raises, and the test of a side is the condition of the specification.
\<close>

lemma temp_point_second_point: "temp_point e sg = second_point e sg"
proof (cases "fst (fst sg) = fst (snd sg)")
  case True
  then show ?thesis
    by (simp add: temp_point_def second_point_def slope_def horizontal_def vertical_def)
next
  case False
  then have sl: "slope (fst sg) (snd sg) = Fin (side_slope sg)"
    by (simp add: slope_def side_slope_def)
  have h: "horizontal sg \<longleftrightarrow> side_slope sg = 0"
    using False by (auto simp add: horizontal_def side_slope_def)
  have v: "\<not> vertical sg" using False by (simp add: vertical_def)
  show ?thesis
    unfolding temp_point_def second_point_def sl by (simp add: h v)
qed

lemma slope_temp_point:
  assumes "center e = (x e, y e)"
  shows "slope (fst sg) (snd sg) \<noteq> slope (center e) (temp_point e sg)"
proof (cases "slope (fst sg) (snd sg)")
  case PosInf
  then show ?thesis using assms by (simp add: temp_point_def slope_def)
next
  case (Fin m)
  then show ?thesis using assms by (simp add: temp_point_def slope_def)
qed

lemma intersection_defined:
  assumes "center e = (x e, y e)"
  shows "\<exists>p. point_of_intersection sg (center e, temp_point e sg) = Some p"
proof -
  have ne: "slope (fst sg) (snd sg) \<noteq> slope (fst (center e, temp_point e sg)) (snd (center e, temp_point e sg))"
    using slope_temp_point [OF assms] by simp
  show ?thesis
  proof (cases "slope (fst sg) (snd sg)")
    case s1: PosInf
    then obtain m2 where s2: "slope (fst (center e, temp_point e sg)) (snd (center e, temp_point e sg)) = Fin m2"
      using ne by (cases "slope (fst (center e, temp_point e sg)) (snd (center e, temp_point e sg))") auto
    show ?thesis using poi_Inf_Fin [OF s1 s2] by blast
  next
    case s1: (Fin m1)
    show ?thesis
    proof (cases "slope (fst (center e, temp_point e sg)) (snd (center e, temp_point e sg))")
      case s2: PosInf
      show ?thesis using poi_Fin_Inf [OF s1 s2] by blast
    next
      case s2: (Fin m2)
      have "m1 \<noteq> m2" using ne s1 s2 by simp
      then show ?thesis using poi_Fin_Fin [OF s1 s2] by blast
    qed
  qed
qed

lemma distance_points: "distance (Tuple p) (Tuple q) = Some (euclid p q)"
  by (simp add: euclid_def)

lemma side_test_collides:
  assumes "center e = (x e, y e)"
  shows "side_test e w i = Inr (side_collides e w i)"
proof -
  obtain p where p: "point_of_intersection (side_of w i) (center e, temp_point e (side_of w i)) = Some p"
    using intersection_defined [OF assms] by blast
  have sc: "side_collides e w i \<longleftrightarrow>
    (euclid (center e) p < COLLISION_RADIUS e \<and> on_segment p (side_of w i))
    \<or> euclid (center e) (vertices w ! i) < COLLISION_RADIUS e"
    using p by (simp add: side_collides_def temp_point_second_point [symmetric])
  show ?thesis
    unfolding side_test_def Let_def p sc intersection_val.simps distance_points
    by (simp split: bool.splits)
qed

lemma collision_loop_exists:
  assumes "\<And>i. i \<in> set idxs \<Longrightarrow> side_test e w i = Inr (P i)"
  shows "collision_loop e w idxs = Inr (\<exists>i \<in> set idxs. P i)"
  using assms
proof (induction idxs)
  case Nil
  then show ?case by simp
next
  case (Cons i rest)
  have hd: "side_test e w i = Inr (P i)" using Cons.prems by simp
  have tl: "collision_loop e w rest = Inr (\<exists>j \<in> set rest. P j)"
    using Cons.IH Cons.prems by simp
  show ?case by (cases "P i") (simp_all add: hd tl)
qed

lemma collision_loop_sides:
  assumes "center e = (x e, y e)"
  shows "collision_loop e w [0 ..< n] = Inr (\<exists>i < n. side_collides e w i)"
proof -
  have "collision_loop e w [0 ..< n] = Inr (\<exists>i \<in> set [0 ..< n]. side_collides e w i)"
    by (rule collision_loop_exists) (rule side_test_collides [OF assms])
  then show ?thesis by (simp add: Bex_def)
qed

text \<open>
  C10: for an entity whose center is its position, when the intersection point of every
  side is at least the collision radius away from the center, and so is every vertex,
  \<^verbatim>\<open>collision\<close> returns false; so it does for the entity of radius 1 at \<open>(5,5)\<close> inside
  the square with corners \<open>(0,0)\<close>, \<open>(10,0)\<close>, \<open>(10,10)\<close>, \<open>(0,10)\<close>.
\<close>

theorem no_collision_when_far:
  assumes "center e = (x e, y e)"
    and "\<forall>i < length (vertices w). \<forall>p.
           point_of_intersection (side_of w i) (center e, second_point e (side_of w i)) = Some p
           \<longrightarrow> euclid (center e) p \<ge> COLLISION_RADIUS e"
    and "\<forall>v \<in> set (vertices w). euclid (center e) v \<ge> COLLISION_RADIUS e"
  shows "collision (Entity e) (Wall w) = Inr (Some False)"
proof -
  have "\<not> side_collides e w i" if "i < length (vertices w)" for i
  proof -
    have "vertices w ! i \<in> set (vertices w)" using that by simp
    then have "euclid (center e) (vertices w ! i) \<ge> COLLISION_RADIUS e"
      using assms(3) by blast
    moreover have "euclid (center e) p \<ge> COLLISION_RADIUS e"
      if "point_of_intersection (side_of w i) (center e, second_point e (side_of w i)) = Some p" for p
      using assms(2) \<open>i < length (vertices w)\<close> that by blast
    ultimately show ?thesis by (fastforce simp add: side_collides_def)
  qed
  then have "\<not> (\<exists>i < length (vertices w). side_collides e w i)" by blast
  then show ?thesis
    by (simp add: collision_loop_sides [OF assms(1)] num_vertices_def)
qed

theorem no_collision_when_far_witness:
  "collision (Entity \<lparr>x = 5, y = 5, center = (5, 5), COLLISION_RADIUS = 1\<rparr>)
     (Wall \<lparr>vertices = [(0, 0), (10, 0), (10, 10), (0, 10)]\<rparr>) = Inr (Some False)"
proof -
  define e where "e = \<lparr>x = 5, y = 5, center = (5, 5), COLLISION_RADIUS = 1\<rparr>"
  define w where "w = \<lparr>vertices = [(0, 0), (10, 0), (10, 10), (0, 10)]\<rparr>"
  have h1: "center e = (x e, y e)" by (simp add: e_def)
  have h2: "\<forall>i < length (vertices w). \<forall>p.
           point_of_intersection (side_of w i) (center e, second_point e (side_of w i)) = Some p
           \<longrightarrow> euclid (center e) p \<ge> COLLISION_RADIUS e"
  proof (intro allI impI)
    fix i p
    assume i: "i < length (vertices w)"
      and p: "point_of_intersection (side_of w i) (center e, second_point e (side_of w i)) = Some p"
    from i have "i < 4" by (simp add: w_def)
    then consider "i = 0" | "i = 1" | "i = 2" | "i = 3" by linarith
    then show "euclid (center e) p \<ge> COLLISION_RADIUS e"
    proof cases
      case 1
      then have "p = (5, 0)" using p
        by (simp add: side_of_def w_def num_vertices_def second_point_def horizontal_def
            vertical_def e_def point_of_intersection.simps slope_def)
      then show ?thesis by (simp add: euclid_def e_def)
    next
      case 2
      then have "p = (10, 5)" using p
        by (simp add: side_of_def w_def num_vertices_def second_point_def horizontal_def
            vertical_def e_def point_of_intersection.simps slope_def)
      then show ?thesis by (simp add: euclid_def e_def)
    next
      case 3
      then have "p = (5, 10)" using p
        by (simp add: side_of_def w_def num_vertices_def second_point_def horizontal_def
            vertical_def e_def point_of_intersection.simps slope_def)
      then show ?thesis by (simp add: euclid_def e_def)
    next
      case 4
      then have "p = (0, 5)" using p
        by (simp add: side_of_def w_def num_vertices_def second_point_def horizontal_def
            vertical_def e_def point_of_intersection.simps slope_def)
      then show ?thesis by (simp add: euclid_def e_def)
    qed
  qed
  have h3: "\<forall>v \<in> set (vertices w). euclid (center e) v \<ge> COLLISION_RADIUS e"
    by (simp add: w_def e_def euclid_def)
  show ?thesis using no_collision_when_far [OF h1 h2 h3] unfolding e_def w_def .
qed

section \<open>Collision of an entity with a wall, with rounding\<close>

text \<open>
  With a rounding that has the properties of rounding to the nearest float, on floats,
  no slope, distance or \<^verbatim>\<open>on_segment\<close> test raises, and when adding 1 to the entity's x
  coordinate changes it, the line through the center and the second point never has
  the slope of the side. So the test of a side returns the condition of the
  specification on the computed values.
\<close>

lemma bind_err_simps [simp]:
  "bind_err (Inr v) f = f v"
  "bind_err (Inl err) f = Inl err"
  by (simp_all add: bind_err_def)




lemma distance_fl_points:
  assumes "float_rounding rnd"
  shows "\<exists>d. distance_fl rnd (Tuple a) (Tuple b) = Inr (Some d)"
proof -
  have nn: "0 \<le> rnd r" if "0 \<le> r" for r
    using assms that unfolding float_rounding_def by blast
  have "0 \<le> rnd ((rnd (fst a - fst b))\<^sup>2)" and "0 \<le> rnd ((rnd (snd a - snd b))\<^sup>2)"
    by (simp_all add: nn)
  then have "0 \<le> rnd (rnd ((rnd (fst a - fst b))\<^sup>2) + rnd ((rnd (snd a - snd b))\<^sup>2))"
    by (simp add: nn)
  then show ?thesis by (simp add: distance_fl.simps pythagoras_fl_def fsqrt_def)
qed

lemma near_fl_points:
  assumes "float_rounding rnd"
  obtains d where "distance_fl rnd (Tuple a) (Tuple b) = Inr (Some d)"
    and "near_fl rnd a (Tuple b) r = Inr (d < r)"
proof -
  obtain d where d: "distance_fl rnd (Tuple a) (Tuple b) = Inr (Some d)"
    using distance_fl_points [OF assms] by blast
  then have "near_fl rnd a (Tuple b) r = Inr (d < r)" by (simp add: near_fl_def)
  then show ?thesis using that d by blast
qed








section \<open>The two readings\<close>

text \<open>
  At the identity rounding the functions with rounding are the functions of the exact
  reading, errors included.
\<close>

lemma float_rounding_exact: "float_rounding (\<lambda>r. r)"
  by (simp add: float_rounding_def representable_def)

lemma slope_fl_exact: "slope_fl (\<lambda>r. r) p1 p2 = Inr (slope p1 p2)"
  by (simp add: slope_fl_def slope_def fdiv_def)

lemma on_segment_fl_exact: "on_segment_fl (\<lambda>r. r) p sg = Inr (on_segment p sg)"
  by (simp add: on_segment_fl_def on_segment_def slope_fl_exact)

lemma line_const_fl_exact: "line_const_fl (\<lambda>r. r) s sg = line_const s sg"
  by (cases s) simp_all

lemma point_of_intersection_fl_exact:
  "point_of_intersection_fl (\<lambda>r. r) line1 line2 = Inr (point_of_intersection line1 line2)"
proof (cases "slope (fst line1) (snd line1)")
  case s1: PosInf
  show ?thesis
    by (cases "slope (fst line2) (snd line2)")
      (simp_all add: point_of_intersection_fl_def point_of_intersection.simps slope_fl_exact s1 Let_def)
next
  case s1: (Fin m1)
  show ?thesis
    by (cases "slope (fst line2) (snd line2)")
      (simp_all add: point_of_intersection_fl_def point_of_intersection.simps slope_fl_exact s1
        Let_def fdiv_def)
qed

lemma distance_fl_exact: "distance_fl (\<lambda>r. r) a b = Inr (distance a b)"
  by (induction a b rule: distance.induct)
    (simp_all add: distance_fl.simps pythagoras_fl_def fsqrt_def not_less)

lemma temp_point_fl_exact: "temp_point_fl (\<lambda>r. r) e sg = Inr (temp_point e sg)"
  by (cases "slope (fst sg) (snd sg)")
    (simp_all add: temp_point_fl_def temp_point_def slope_fl_exact fdiv_def)

lemma on_segment_val_fl_exact: "on_segment_val_fl (\<lambda>r. r) v sg = on_segment_val v sg"
  by (cases v) (simp_all add: on_segment_fl_exact)

lemma near_fl_exact: "near_fl (\<lambda>r. r) c v r = less_radius (distance (Tuple c) v) r"
  by (simp add: near_fl_def distance_fl_exact)

lemma side_test_fl_exact: "side_test_fl (\<lambda>r. r) e w i = side_test e w i"
  by (simp add: side_test_fl_def side_test_def Let_def temp_point_fl_exact
      point_of_intersection_fl_exact near_fl_exact on_segment_val_fl_exact bind_err_def
      split: sum.splits bool.splits)

lemma collision_loop_fl_exact: "collision_loop_fl (\<lambda>r. r) e w idxs = collision_loop e w idxs"
  by (induction idxs) (simp_all add: side_test_fl_exact bind_err_def split: sum.splits bool.splits)

lemma collision_fl_exact: "collision_fl (\<lambda>r. r) a b = collision a b"
  by (induction a b rule: collision.induct)
    (simp_all add: near_fl_exact collision_loop_fl_exact)

section \<open>The result depends on the rounding\<close>

text \<open>
  Rounding to eighths has the properties asked of a rounding.
\<close>

lemma round_eighths_grid: "round_eighths (of_int k / 8) = of_int k / 8"
proof -
  have "\<lfloor>(of_int k :: real) + 1 / 2\<rfloor> = k" by linarith
  then show ?thesis by (simp add: round_eighths_def)
qed

lemma representable_eighths:
  "representable round_eighths v \<longleftrightarrow> (\<exists>k. v = of_int k / 8)"
proof
  assume "representable round_eighths v"
  then have "v = of_int \<lfloor>v * 8 + 1 / 2\<rfloor> / 8"
    by (simp add: representable_def round_eighths_def)
  then show "\<exists>k. v = of_int k / 8" by blast
next
  assume "\<exists>k. v = of_int k / 8"
  then obtain k where "v = of_int k / 8" by blast
  then show "representable round_eighths v"
    unfolding representable_def by (simp only: round_eighths_grid)
qed

lemma float_rounding_eighths: "float_rounding round_eighths"
  unfolding float_rounding_def
proof (intro conjI allI impI)
  fix r show "representable round_eighths (round_eighths r)"
    unfolding representable_eighths by (auto simp add: round_eighths_def)
next
  fix r :: real assume "0 \<le> r"
  then have "0 \<le> \<lfloor>r * 8 + 1 / 2\<rfloor>" by simp
  then show "0 \<le> round_eighths r" by (simp add: round_eighths_def)
next
  fix a b assume "representable round_eighths a \<and> representable round_eighths b \<and> a \<noteq> b"
  then obtain k l where a: "a = of_int k / 8" and b: "b = of_int l / 8" and ne: "a \<noteq> b"
    unfolding representable_eighths by blast
  have "a - b = of_int (k - l) / 8" by (simp add: a b diff_divide_distrib)
  then have "round_eighths (a - b) = a - b" by (simp only: round_eighths_grid)
  then show "round_eighths (a - b) \<noteq> 0" using ne by simp
qed

text \<open>
  An entity at \<open>(1, 1/2)\<close> of radius \<open>1/2\<close> and the wall with the vertices \<open>(0,0)\<close> and
  \<open>(3,2)\<close>: in exact arithmetic the intersection \<open>(1, 2/3)\<close> passes \<^verbatim>\<open>on_segment\<close> and the
  collision is reported. With rounding to eighths the slope of the side is \<open>5/8\<close>, the
  intersection is \<open>(1, 5/8)\<close>, and the slopes from it to the two endpoints round to \<open>5/8\<close>
  and \<open>3/4\<close>, so \<^verbatim>\<open>on_segment\<close> fails, on the second side likewise, and no collision is
  reported.
\<close>

lemma round_eighths_sqrt_far:
  assumes "1 / 4 \<le> v"
  shows "\<not> round_eighths (sqrt v) < 1 / 2"
proof -
  have "sqrt (1 / 4) \<le> sqrt v" using assms by simp
  moreover have "sqrt (1 / 4) = 1 / 2"
    by (rule real_sqrt_unique) (simp_all add: power2_eq_square)
  ultimately have "1 / 2 \<le> sqrt v" by simp
  then have "4 \<le> \<lfloor>sqrt v * 8 + 1 / 2\<rfloor>" by linarith
  then have "(4::real) \<le> of_int \<lfloor>sqrt v * 8 + 1 / 2\<rfloor>" by linarith
  then show ?thesis by (simp add: round_eighths_def)
qed

lemma rounding_changes_collision:
  "collision (Entity \<lparr>x = 1, y = 1 / 2, center = (1, 1 / 2), COLLISION_RADIUS = 1 / 2\<rparr>)
     (Wall \<lparr>vertices = [(0, 0), (3, 2)]\<rparr>) = Inr (Some True) \<and>
   collision_fl round_eighths
     (Entity \<lparr>x = 1, y = 1 / 2, center = (1, 1 / 2), COLLISION_RADIUS = 1 / 2\<rparr>)
     (Wall \<lparr>vertices = [(0, 0), (3, 2)]\<rparr>) = Inr (Some False)"
proof
  define e where "e = \<lparr>x = 1, y = 1 / 2, center = (1, 1 / 2), COLLISION_RADIUS = 1 / 2\<rparr>"
  define w where "w = \<lparr>vertices = [(0, 0), (3, 2)]\<rparr>"
  have sd: "side_of w 0 = ((0, 0), (3, 2))" "side_of w (Suc 0) = ((3, 2), (0, 0))"
    by (simp_all add: side_of_def w_def num_vertices_def)
  have idx: "[0 ..< num_vertices w] = [0, Suc 0]"
    by (simp add: num_vertices_def w_def upt_rec)
  have c: "center e = (1, 1 / 2)" and r: "COLLISION_RADIUS e = 1 / 2" by (simp_all add: e_def)
  have v: "vertices w ! 0 = (0, 0)" "vertices w ! Suc 0 = (3, 2)" by (simp_all add: w_def)
  show "collision (Entity \<lparr>x = 1, y = 1 / 2, center = (1, 1 / 2), COLLISION_RADIUS = 1 / 2\<rparr>)
     (Wall \<lparr>vertices = [(0, 0), (3, 2)]\<rparr>) = Inr (Some True)"
  proof -
    have tp: "temp_point e ((0, 0), (3, 2)) = (1, - 1)"
      by (simp add: temp_point_def slope_def e_def)
    have pi: "point_of_intersection ((0, 0), (3, 2)) ((1, 1 / 2), (1, - 1)) = Some (1, 2 / 3)"
      by (simp add: point_of_intersection.simps slope_def)
    have "sqrt ((1 / 6)\<^sup>2) < 1 / 2" by simp
    then have d: "sqrt ((1 - 1)\<^sup>2 + (1 / 2 - 2 / 3)\<^sup>2) < (1 / 2 :: real)"
      by (simp add: power2_eq_square)
    have os: "on_segment (1, 2 / 3) ((0, 0), (3, 2))"
      by (simp add: on_segment_def slope_def min_geom_def max_geom_def)
    have "side_test e w 0 = Inr True"
      using d by (simp add: side_test_def Let_def sd tp c r pi os)
    then have "collision (Entity e) (Wall w) = Inr (Some True)"
      by (simp add: idx)
    then show ?thesis unfolding e_def w_def .
  qed
  show "collision_fl round_eighths
     (Entity \<lparr>x = 1, y = 1 / 2, center = (1, 1 / 2), COLLISION_RADIUS = 1 / 2\<rparr>)
     (Wall \<lparr>vertices = [(0, 0), (3, 2)]\<rparr>) = Inr (Some False)"
  proof -
    have tp0: "temp_point_fl round_eighths e ((0, 0), (3, 2)) = Inr (1, - (9 / 8))"
      and tp1: "temp_point_fl round_eighths e ((3, 2), (0, 0)) = Inr (1, - (9 / 8))"
      by (simp_all add: temp_point_fl_def slope_fl_def fdiv_def round_eighths_def e_def)
    have pi0: "point_of_intersection_fl round_eighths ((0, 0), (3, 2)) ((1, 1 / 2), (1, - (9 / 8)))
        = Inr (Some (1, 5 / 8))"
      and pi1: "point_of_intersection_fl round_eighths ((3, 2), (0, 0)) ((1, 1 / 2), (1, - (9 / 8)))
        = Inr (Some (1, 3 / 4))"
      by (simp_all add: point_of_intersection_fl_def slope_fl_def fdiv_def round_eighths_def)
    have os0: "on_segment_fl round_eighths (1, 5 / 8) ((0, 0), (3, 2)) = Inr False"
      and os1: "on_segment_fl round_eighths (1, 3 / 4) ((3, 2), (0, 0)) = Inr False"
      by (simp_all add: on_segment_fl_def slope_fl_def fdiv_def round_eighths_def)
    obtain n0 where n0: "near_fl round_eighths (1, 1 / 2) (Tuple (1, 5 / 8)) (1 / 2) = Inr n0"
      using near_fl_points [OF float_rounding_eighths] by metis
    obtain n1 where n1: "near_fl round_eighths (1, 1 / 2) (Tuple (1, 3 / 4)) (1 / 2) = Inr n1"
      using near_fl_points [OF float_rounding_eighths] by metis
    have p0: "pythagoras_fl round_eighths 1 (1 / 2) 0 0 = Inr (round_eighths (sqrt (5 / 4)))"
      and p1: "pythagoras_fl round_eighths 1 (1 / 2) 3 2 = Inr (round_eighths (sqrt (25 / 4)))"
      by (simp_all add: pythagoras_fl_def fsqrt_def round_eighths_def power2_eq_square)
    have "\<not> round_eighths (sqrt (5 / 4)) < 1 / 2" by (rule round_eighths_sqrt_far) simp
    then have f0: "near_fl round_eighths (1, 1 / 2) (Tuple (0, 0)) (1 / 2) = Inr False"
      by (simp add: near_fl_def distance_fl.simps p0)
    have "\<not> round_eighths (sqrt (25 / 4)) < 1 / 2" by (rule round_eighths_sqrt_far) simp
    then have f1: "near_fl round_eighths (1, 1 / 2) (Tuple (3, 2)) (1 / 2) = Inr False"
      by (simp add: near_fl_def distance_fl.simps p1)
    have t0: "side_test_fl round_eighths e w 0 = Inr False"
      by (simp add: side_test_fl_def Let_def sd c r v tp0 pi0 n0 os0 f0)
    have t1: "side_test_fl round_eighths e w (Suc 0) = Inr False"
      by (simp add: side_test_fl_def Let_def sd c r v tp1 pi1 n1 os1 f1)
    have "collision_fl round_eighths (Entity e) (Wall w) = Inr (Some False)"
      by (simp add: idx t0 t1)
    then show ?thesis unfolding e_def w_def .
  qed
qed

end
